theory Spec2Isabelle
  imports Complex_Main "HOL-Library.Multiset" "HOL-Library.AList"
begin

section \<open>The match store read by truescrub/highlights.py\<close>

text \<open>
  The tables named in the SQL of \<^verbatim>\<open>highlights.py\<close>, each as the list of its rows in
  storage order, with the columns the statements read. Identifiers and counts are
  Python integers (\<open>int\<close>), ratings and skills are SQL reals (idealised as \<open>real\<close>),
  \<open>created_at\<close> is a point in time counted in microseconds, the resolution of a Python
  \<^verbatim>\<open>datetime\<close>. \<open>rounds.mvp\<close> is nullable: \<open>None\<close> is SQL \<^verbatim>\<open>NULL\<close>.
\<close>

record player_row =
  p_player_id :: int
  p_steam_name :: string

record round_row =
  r_round_id :: int
  r_created_at :: int
  r_map_id :: int
  r_mvp :: "int option"

record map_row =
  m_map_id :: int
  m_map_name :: string

record rating_component_row =
  rc_player_id :: int
  rc_round_id :: int
  rc_kill_rating :: real
  rc_death_rating :: real
  rc_damage_rating :: real
  rc_kas_rating :: real

record skill_history_row =
  ssh_player_id :: int
  ssh_round_id :: int
  ssh_skill_mean :: real
  ssh_skill_stdev :: real

text \<open>The five statements of the module, named after the function that issues them.\<close>

datatype query =
  RoundRangeQuery
  | RatingExtremesQuery
  | MostMvpsQuery
  | SkillChangesQuery
  | MostPlayedMapsQuery

text \<open>
  The handle \<^verbatim>\<open>skill_db\<close>: the tables and, as the only thing a read changes, the
  statements executed on the handle so far. The last two fields belong to the engine
  behind the handle, not to the data: where a statement orders its rows by a count
  alone, the order of rows with equal counts is the engine's. \<open>map_tie_order\<close> is the
  place the engine gives each map name among the map names of equal count, and
  \<open>mvp_tie_order\<close> the place it gives each player among the players of equal count.
\<close>

record skill_db =
  players :: "player_row list"
  rounds :: "round_row list"
  maps :: "map_row list"
  rating_components :: "rating_component_row list"
  season_skill_history :: "skill_history_row list"
  issued :: "query list"
  map_tie_order :: "string \<Rightarrow> int"
  mvp_tie_order :: "int \<times> string \<Rightarrow> int"

datatype error = StopIteration | IndexError

type_synonym round_range = "int option \<times> int option"

subsection \<open>SQL building blocks\<close>

text \<open>\<^verbatim>\<open>MIN\<close> and \<^verbatim>\<open>MAX\<close> over no rows are \<^verbatim>\<open>NULL\<close>.\<close>

fun sql_min :: "('a::linorder) list \<Rightarrow> 'a option" where
  "sql_min [] = None"
| "sql_min (x # xs) = Some (fold min xs x)"

fun sql_max :: "('a::linorder) list \<Rightarrow> 'a option" where
  "sql_max [] = None"
| "sql_max (x # xs) = Some (fold max xs x)"

text \<open>
  A comparison with \<^verbatim>\<open>NULL\<close> is unknown, and a row whose condition is unknown is not
  selected.
\<close>

fun sql_between :: "int \<Rightarrow> int option \<Rightarrow> int option \<Rightarrow> bool" where
  "sql_between x (Some lo) (Some hi) = (lo \<le> x \<and> x \<le> hi)"
| "sql_between x _ _ = False"

fun sql_le :: "int \<Rightarrow> int option \<Rightarrow> bool" where
  "sql_le x (Some b) = (x \<le> b)"
| "sql_le x None = False"

fun sql_ge :: "int \<Rightarrow> int option \<Rightarrow> bool" where
  "sql_ge x (Some b) = (b \<le> x)"
| "sql_ge x None = False"

definition in_range :: "round_range \<Rightarrow> int \<Rightarrow> bool" where
  "in_range rr x = sql_between x (fst rr) (snd rr)"

text \<open>\<^verbatim>\<open>AVG\<close> over the rows of a group; a group of \<^verbatim>\<open>GROUP BY\<close> has at least one row.\<close>

definition sql_avg :: "real list \<Rightarrow> real" where
  "sql_avg xs = sum_list xs / real (length xs)"

text \<open>
  Modelled from the spec: \<^verbatim>\<open>execute\<close> and \<^verbatim>\<open>execute_one\<close> of \<^verbatim>\<open>truescrub/db.py\<close>, which
  is not among the sources. \<open>execute\<close> runs a read-only statement on the handle and
  gives its rows; \<open>execute_one\<close> gives the first row and signals \<^verbatim>\<open>StopIteration\<close>
  (the "no result" signal that \<^verbatim>\<open>get_highlights\<close> catches) when there is none.
  The rows are what the statement selects from the tables of the handle.
\<close>

definition execute :: "skill_db \<Rightarrow> query \<Rightarrow> 'r list \<Rightarrow> 'r list \<times> skill_db" where
  "execute db q rows = (rows, db\<lparr>issued := issued db @ [q]\<rparr>)"

definition execute_one :: "skill_db \<Rightarrow> query \<Rightarrow> 'r list \<Rightarrow> (error + 'r) \<times> skill_db" where
  "execute_one db q rows =
     (case execute db q rows of
        ([], db') \<Rightarrow> (Inl StopIteration, db')
      | (row # _, db') \<Rightarrow> (Inr row, db'))"

subsection \<open>get_round_range_for_day\<close>

text \<open>\<^verbatim>\<open>datetime.timedelta(days=1)\<close> in microseconds.\<close>

definition one_day :: int where
  "one_day = 86400000000"

text \<open>
  \<^verbatim>\<open>SELECT MIN(round_id), MAX(round_id), COUNT(*) FROM rounds
  WHERE created_at BETWEEN ? AND ?\<close> with the parameters \<open>(day, next_day)\<close>.
  An aggregate without \<^verbatim>\<open>GROUP BY\<close> selects exactly one row.
\<close>

definition rounds_created_between :: "skill_db \<Rightarrow> int \<Rightarrow> int \<Rightarrow> round_row list" where
  "rounds_created_between db lo hi =
     filter (\<lambda>r. lo \<le> r_created_at r \<and> r_created_at r \<le> hi) (rounds db)"

definition round_range_rows :: "skill_db \<Rightarrow> int \<Rightarrow> int \<Rightarrow> (int option \<times> int option \<times> int) list" where
  "round_range_rows db day next_day =
     (let ids = map r_round_id (rounds_created_between db day next_day)
      in [(sql_min ids, sql_max ids, int (length ids))])"

definition get_round_range_for_day :: "skill_db \<Rightarrow> int \<Rightarrow> (error + (round_range \<times> int)) \<times> skill_db" where
  "get_round_range_for_day db day =
     (let next_day = day + one_day
      in case execute_one db RoundRangeQuery (round_range_rows db day next_day) of
           (Inl e, db') \<Rightarrow> (Inl e, db')
         | (Inr (first_round, last_round, round_count), db') \<Rightarrow>
             (Inr ((first_round, last_round), round_count), db'))"

subsection \<open>get_rating_extremes_between_rounds\<close>

text \<open>
  \<^verbatim>\<open>COEFFICIENTS\<close> is imported from \<^verbatim>\<open>truescrub/db.py\<close>, which is not among the sources:
  the five numbers are a parameter of the model.
\<close>

type_synonym coefficients = "real \<times> real \<times> real \<times> real \<times> real"

text \<open>The common table expression \<^verbatim>\<open>components\<close>: one row per player with rows in the range.\<close>

record component_row =
  c_player_id :: int
  c_average_kills :: real
  c_average_deaths :: real
  c_average_damage :: real
  c_average_kas :: real
  c_rounds_played :: int

definition components_in_range :: "skill_db \<Rightarrow> round_range \<Rightarrow> rating_component_row list" where
  "components_in_range db rr = filter (\<lambda>rc. in_range rr (rc_round_id rc)) (rating_components db)"

definition components_of :: "skill_db \<Rightarrow> round_range \<Rightarrow> int \<Rightarrow> rating_component_row list" where
  "components_of db rr pid = filter (\<lambda>rc. rc_player_id rc = pid) (components_in_range db rr)"

definition components :: "skill_db \<Rightarrow> round_range \<Rightarrow> component_row list" where
  "components db rr =
     map (\<lambda>pid. let g = components_of db rr pid
                in \<lparr>c_player_id = pid,
                    c_average_kills = sql_avg (map rc_kill_rating g),
                    c_average_deaths = sql_avg (map rc_death_rating g),
                    c_average_damage = sql_avg (map rc_damage_rating g),
                    c_average_kas = sql_avg (map rc_kas_rating g),
                    c_rounds_played = int (length g)\<rparr>)
         (remdups (map rc_player_id (components_in_range db rr)))"

text \<open>The common table expression \<^verbatim>\<open>impact_ratings\<close>: \<open>rating\<close> and \<^verbatim>\<open>c.*\<close>.\<close>

fun rating_of :: "coefficients \<Rightarrow> component_row \<Rightarrow> real" where
  "rating_of (c1, c2, c3, c4, c5) c =
     c1 * c_average_kills c + c2 * c_average_deaths c + c3 * c_average_damage c
       + c4 * c_average_kas c + c5"

definition impact_ratings :: "coefficients \<Rightarrow> skill_db \<Rightarrow> round_range \<Rightarrow> (real \<times> component_row) list" where
  "impact_ratings cs db rr = map (\<lambda>c. (rating_of cs c, c)) (components db rr)"

text \<open>
  The outer \<^verbatim>\<open>SELECT\<close>: \<open>players\<close> joined with the impact ratings of the same player that
  are the minimum or the maximum. The row is
  \<open>(player_id, steam_name, rating, average_kills, - average_deaths, average_damage,
  average_kas, rounds_played)\<close>.
\<close>

type_synonym rating_row = "int \<times> string \<times> real \<times> real \<times> real \<times> real \<times> real \<times> int"

definition rating_extreme_rows :: "coefficients \<Rightarrow> skill_db \<Rightarrow> round_range \<Rightarrow> rating_row list" where
  "rating_extreme_rows cs db rr =
     (let irs = impact_ratings cs db rr;
          lo = sql_min (map fst irs);
          hi = sql_max (map fst irs)
      in concat (map (\<lambda>p.
           map (\<lambda>(rating, c).
                  (p_player_id p, p_steam_name p, rating, c_average_kills c,
                   - c_average_deaths c, c_average_damage c, c_average_kas c,
                   c_rounds_played c))
               (filter (\<lambda>(rating, c). p_player_id p = c_player_id c
                                     \<and> (Some rating = lo \<or> Some rating = hi)) irs))
           (players db)))"

record rating_extreme =
  re_player_id :: int
  re_steam_name :: string
  re_impact_rating :: real
  re_average_kills :: real
  re_average_deaths :: real
  re_average_damage :: real
  re_average_kas :: real
  re_rounds_played :: int

fun rating_extreme_of_row :: "rating_row \<Rightarrow> rating_extreme" where
  "rating_extreme_of_row (pid, name, rating, kills, deaths, damage, kas, played) =
     \<lparr>re_player_id = pid, re_steam_name = name, re_impact_rating = rating,
      re_average_kills = kills, re_average_deaths = deaths, re_average_damage = damage,
      re_average_kas = kas, re_rounds_played = played\<rparr>"

text \<open>
  \<^verbatim>\<open>list.sort\<close> is stable, as \<open>sort_key\<close> is; \<^verbatim>\<open>rating_extremes[0]\<close> raises
  \<^verbatim>\<open>IndexError\<close> on the empty list.
\<close>

definition get_rating_extremes_between_rounds ::
  "coefficients \<Rightarrow> skill_db \<Rightarrow> round_range \<Rightarrow> (error + (rating_extreme \<times> rating_extreme)) \<times> skill_db" where
  "get_rating_extremes_between_rounds cs db rr =
     (case execute db RatingExtremesQuery (rating_extreme_rows cs db rr) of
        (rows, db') \<Rightarrow>
          (let rating_extremes = sort_key re_impact_rating (map rating_extreme_of_row rows)
           in case rating_extremes of
                [] \<Rightarrow> (Inl IndexError, db')
              | _ # _ \<Rightarrow> (Inr (hd rating_extremes, last rating_extremes), db')))"

subsection \<open>get_player_with_most_mvps_between_rounds\<close>

text \<open>
  \<open>players\<close> joined with \<open>rounds\<close> on \<^verbatim>\<open>players.player_id = rounds.mvp\<close> (never true for a
  \<^verbatim>\<open>NULL\<close> \<open>mvp\<close>), restricted to the range, grouped by \<open>(player_id, steam_name)\<close>,
  counted, and ordered by the count, largest first. \<^verbatim>\<open>ORDER BY mvps DESC\<close> says nothing
  about groups of equal count: \<open>mvp_rows\<close> puts them in the engine's \<open>mvp_tie_order\<close>
  (both sorts are stable, so the second keeps the order of the first among equal counts;
  players that the engine places equally stay in the order of the groups).
\<close>

definition mvp_join :: "skill_db \<Rightarrow> round_range \<Rightarrow> (player_row \<times> round_row) list" where
  "mvp_join db rr =
     concat (map (\<lambda>p. map (\<lambda>r. (p, r))
                         (filter (\<lambda>r. Some (p_player_id p) = r_mvp r \<and> in_range rr (r_round_id r))
                                 (rounds db)))
                 (players db))"

definition mvp_key :: "player_row \<times> round_row \<Rightarrow> int \<times> string" where
  "mvp_key pr = (p_player_id (fst pr), p_steam_name (fst pr))"

definition mvp_groups :: "skill_db \<Rightarrow> round_range \<Rightarrow> (int \<times> string \<times> int) list" where
  "mvp_groups db rr =
     map (\<lambda>k. (fst k, snd k, int (length (filter (\<lambda>pr. mvp_key pr = k) (mvp_join db rr)))))
         (remdups (map mvp_key (mvp_join db rr)))"

definition mvp_rows :: "skill_db \<Rightarrow> round_range \<Rightarrow> (int \<times> string \<times> int) list" where
  "mvp_rows db rr =
     sort_key (\<lambda>(pid, name, mvps). - mvps)
       (sort_key (\<lambda>(pid, name, mvps). mvp_tie_order db (pid, name)) (mvp_groups db rr))"

record mvp_entry =
  mv_player_id :: int
  mv_steam_name :: string
  mv_mvps :: int

definition get_player_with_most_mvps_between_rounds ::
  "skill_db \<Rightarrow> round_range \<Rightarrow> (error + mvp_entry) \<times> skill_db" where
  "get_player_with_most_mvps_between_rounds db rr =
     (case execute_one db MostMvpsQuery (mvp_rows db rr) of
        (Inl e, db') \<Rightarrow> (Inl e, db')
      | (Inr (pid, name, mvps), db') \<Rightarrow>
          (Inr \<lparr>mv_player_id = pid, mv_steam_name = name, mv_mvps = mvps\<rparr>, db'))"

subsection \<open>get_skill_changes_between_rounds\<close>

text \<open>
  The class \<^verbatim>\<open>Player\<close> is imported from \<^verbatim>\<open>truescrub/models.py\<close>, which is not among the
  sources. A \<open>player\<close> holds the five arguments of the constructor; the attributes
  \<^verbatim>\<open>mmr\<close> and \<^verbatim>\<open>skill_group\<close>, which the class derives from them, are parameters \<open>mmr\<close>
  and \<open>skill_group\<close> of the functions that read them.
\<close>

record player =
  pl_player_id :: int
  pl_steam_name :: string
  pl_skill_mean :: real
  pl_skill_stdev :: real
  pl_impact_rating :: real

definition Player :: "int \<Rightarrow> string \<Rightarrow> real \<Rightarrow> real \<Rightarrow> real \<Rightarrow> player" where
  "Player pid name mean stdev rating =
     \<lparr>pl_player_id = pid, pl_steam_name = name, pl_skill_mean = mean,
      pl_skill_stdev = stdev, pl_impact_rating = rating\<rparr>"

text \<open>
  The subquery of the first join: the largest \<open>round_id\<close> of the player's history rows
  with \<^verbatim>\<open>round_id <= ?\<close>, and of the second: the smallest with \<^verbatim>\<open>round_id >= ?\<close>.
\<close>

definition latest_before :: "skill_db \<Rightarrow> int option \<Rightarrow> int \<Rightarrow> int option" where
  "latest_before db first_round pid =
     sql_max (map ssh_round_id
                (filter (\<lambda>s. sql_le (ssh_round_id s) first_round \<and> ssh_player_id s = pid)
                        (season_skill_history db)))"

definition earliest_after :: "skill_db \<Rightarrow> int option \<Rightarrow> int \<Rightarrow> int option" where
  "earliest_after db last_round pid =
     sql_min (map ssh_round_id
                (filter (\<lambda>s. sql_ge (ssh_round_id s) last_round \<and> ssh_player_id s = pid)
                        (season_skill_history db)))"

definition earlier_rows :: "skill_db \<Rightarrow> round_range \<Rightarrow> int \<Rightarrow> skill_history_row list" where
  "earlier_rows db rr pid =
     filter (\<lambda>e. pid = ssh_player_id e \<and> Some (ssh_round_id e) = latest_before db (fst rr) pid)
            (season_skill_history db)"

definition later_rows :: "skill_db \<Rightarrow> round_range \<Rightarrow> int \<Rightarrow> skill_history_row list" where
  "later_rows db rr pid =
     filter (\<lambda>l. pid = ssh_player_id l \<and> Some (ssh_round_id l) = earliest_after db (snd rr) pid)
            (season_skill_history db)"

type_synonym skill_change_row = "int \<times> string \<times> real \<times> real \<times> real \<times> real"

definition skill_change_rows :: "skill_db \<Rightarrow> round_range \<Rightarrow> skill_change_row list" where
  "skill_change_rows db rr =
     concat (map (\<lambda>p.
       concat (map (\<lambda>e.
         map (\<lambda>l. (p_player_id p, p_steam_name p, ssh_skill_mean e, ssh_skill_stdev e,
                   ssh_skill_mean l, ssh_skill_stdev l))
             (later_rows db rr (p_player_id p)))
         (earlier_rows db rr (p_player_id p))))
       (players db))"

fun skill_change_of_row :: "skill_change_row \<Rightarrow> player \<times> player" where
  "skill_change_of_row (player_id, steam_name, earlier_mean, earlier_stdev, later_mean, later_stdev) =
     (Player player_id steam_name earlier_mean earlier_stdev 0,
      Player player_id steam_name later_mean later_stdev 0)"

definition get_skill_changes_between_rounds ::
  "(player \<Rightarrow> real) \<Rightarrow> (player \<Rightarrow> string) \<Rightarrow> skill_db \<Rightarrow> round_range
     \<Rightarrow> (player \<times> player) list \<times> skill_db" where
  "get_skill_changes_between_rounds mmr skill_group db rr =
     (case execute db SkillChangesQuery (skill_change_rows db rr) of
        (rows, db') \<Rightarrow>
          (let skill_changes = sort_key (\<lambda>change. - mmr (snd change)) (map skill_change_of_row rows)
           in (filter (\<lambda>(previous_skill, next_skill).
                         skill_group previous_skill \<noteq> skill_group next_skill) skill_changes,
               db')))"

subsection \<open>get_most_played_maps_between_rounds\<close>

text \<open>
  \<open>rounds\<close> joined with \<open>maps\<close> on the map identifier, restricted to the range, grouped by
  map name and counted.
\<close>

definition map_join :: "skill_db \<Rightarrow> round_range \<Rightarrow> (round_row \<times> map_row) list" where
  "map_join db rr =
     concat (map (\<lambda>r. map (\<lambda>m. (r, m)) (filter (\<lambda>m. r_map_id r = m_map_id m) (maps db)))
                 (filter (\<lambda>r. in_range rr (r_round_id r)) (rounds db)))"

definition map_groups :: "skill_db \<Rightarrow> round_range \<Rightarrow> (string \<times> int) list" where
  "map_groups db rr =
     map (\<lambda>n. (n, int (length (filter (\<lambda>rm. m_map_name (snd rm) = n) (map_join db rr)))))
         (remdups (map (\<lambda>rm. m_map_name (snd rm)) (map_join db rr)))"

text \<open>
  \<^verbatim>\<open>ORDER BY round_count DESC\<close> asks for the groups with the larger count first and says
  nothing about groups of equal count: \<open>most_played_maps_answer\<close> holds of every list of
  rows the statement allows. Which of them the code receives is up to the engine:
  \<open>most_played_maps_rows\<close> puts the groups of equal count in the engine's \<open>map_tie_order\<close>
  (both sorts are stable, so the second keeps the order of the first among equal counts;
  names that the engine places equally stay in the order of the groups).
\<close>

definition most_played_maps_answer :: "skill_db \<Rightarrow> round_range \<Rightarrow> (string \<times> int) list \<Rightarrow> bool" where
  "most_played_maps_answer db rr rows =
     (mset rows = mset (map_groups db rr) \<and> sorted (map (\<lambda>row. - snd row) rows))"

definition most_played_maps_rows :: "skill_db \<Rightarrow> round_range \<Rightarrow> (string \<times> int) list" where
  "most_played_maps_rows db rr =
     sort_key (\<lambda>row. - snd row)
       (sort_key (\<lambda>row. map_tie_order db (fst row)) (map_groups db rr))"

text \<open>
  Python's \<^verbatim>\<open>dict\<close> of a sequence of pairs: a key keeps the place of its first occurrence
  and the value of its last.
\<close>

definition dict :: "('k \<times> 'v) list \<Rightarrow> ('k \<times> 'v) list" where
  "dict pairs = fold (\<lambda>(k, v) d. AList.update k v d) pairs []"

definition get_most_played_maps_between_rounds ::
  "skill_db \<Rightarrow> round_range \<Rightarrow> (string \<times> int) list \<times> skill_db" where
  "get_most_played_maps_between_rounds db rr =
     (case execute db MostPlayedMapsQuery (most_played_maps_rows db rr) of
        (rows, db') \<Rightarrow> (dict rows, db'))"

subsection \<open>get_highlights\<close>

record skill_entry =
  sk_mmr :: real
  sk_skill_group :: string

record skill_change_entry =
  sc_player_id :: int
  sc_steam_name :: string
  sc_previous_skill :: skill_entry
  sc_next_skill :: skill_entry

text \<open>
  The digest. \<open>time_window\<close> holds the two points in time whose \<^verbatim>\<open>isoformat()\<close> the source
  stores.
\<close>

record digest =
  time_window :: "int list"
  rounds_played :: int
  lowest_rating :: rating_extreme
  highest_rating :: rating_extreme
  season_skill_group_changes :: "skill_change_entry list"
  most_played_maps :: "(string \<times> int) list"
  most_mvps :: "mvp_entry option"

definition skill_change_entry_of ::
  "(player \<Rightarrow> real) \<Rightarrow> (player \<Rightarrow> string) \<Rightarrow> player \<times> player \<Rightarrow> skill_change_entry" where
  "skill_change_entry_of mmr skill_group change =
     (case change of (previous_skill, next_skill) \<Rightarrow>
        \<lparr>sc_player_id = pl_player_id previous_skill,
         sc_steam_name = pl_steam_name previous_skill,
         sc_previous_skill = \<lparr>sk_mmr = mmr previous_skill, sk_skill_group = skill_group previous_skill\<rparr>,
         sc_next_skill = \<lparr>sk_mmr = mmr next_skill, sk_skill_group = skill_group next_skill\<rparr>\<rparr>)"

text \<open>\<^verbatim>\<open>try: ... except StopIteration: most_mvps = None\<close>; any other error is not caught.\<close>

fun except_StopIteration :: "error + 'a \<Rightarrow> error + 'a option" where
  "except_StopIteration (Inr x) = Inr (Some x)"
| "except_StopIteration (Inl StopIteration) = Inr None"
| "except_StopIteration (Inl e) = Inl e"

definition get_highlights ::
  "coefficients \<Rightarrow> (player \<Rightarrow> real) \<Rightarrow> (player \<Rightarrow> string) \<Rightarrow> skill_db \<Rightarrow> int
     \<Rightarrow> (error + digest) \<times> skill_db" where
  "get_highlights cs mmr skill_group db day =
     (case get_round_range_for_day db day of
        (Inl e, db1) \<Rightarrow> (Inl e, db1)
      | (Inr (round_range, played), db1) \<Rightarrow>
          if played = 0 then (Inl StopIteration, db1)
          else
            (case get_rating_extremes_between_rounds cs db1 round_range of
               (Inl e, db2) \<Rightarrow> (Inl e, db2)
             | (Inr (lowest, highest), db2) \<Rightarrow>
                 (case get_player_with_most_mvps_between_rounds db2 round_range of
                    (mvp_result, db3) \<Rightarrow>
                      (case except_StopIteration mvp_result of
                         Inl e \<Rightarrow> (Inl e, db3)
                       | Inr mvps \<Rightarrow>
                           (case get_skill_changes_between_rounds mmr skill_group db3 round_range of
                              (skill_group_changes, db4) \<Rightarrow>
                                (case get_most_played_maps_between_rounds db4 round_range of
                                   (played_maps, db5) \<Rightarrow>
                                     (Inr \<lparr>time_window = [day, day + one_day],
                                           rounds_played = played,
                                           lowest_rating = lowest,
                                           highest_rating = highest,
                                           season_skill_group_changes =
                                             map (skill_change_entry_of mmr skill_group)
                                                 skill_group_changes,
                                           most_played_maps = played_maps,
                                           most_mvps = mvps\<rparr>, db5)))))))"

section \<open>Stores used as concrete inputs\<close>

text \<open>One round, created at the first instant of the second day counted from time 0.\<close>

definition midnight_db :: skill_db where
  "midnight_db =
     \<lparr>players = [],
      rounds = [\<lparr>r_round_id = 7, r_created_at = 86400000000, r_map_id = 1, r_mvp = None\<rparr>],
      maps = [], rating_components = [], season_skill_history = [], issued = [],
      map_tie_order = (\<lambda>name. 0), mvp_tie_order = (\<lambda>player. 0)\<rparr>"

text \<open>Rounds on day 0 whose only rating components belong to an earlier round.\<close>

definition unrated_db :: skill_db where
  "unrated_db =
     \<lparr>players = [\<lparr>p_player_id = 1, p_steam_name = ''ann''\<rparr>],
      rounds = [\<lparr>r_round_id = 4, r_created_at = 100, r_map_id = 1, r_mvp = Some 1\<rparr>,
                \<lparr>r_round_id = 5, r_created_at = 200, r_map_id = 1, r_mvp = None\<rparr>],
      maps = [\<lparr>m_map_id = 1, m_map_name = ''de_dust2''\<rparr>],
      rating_components =
        [\<lparr>rc_player_id = 1, rc_round_id = 3, rc_kill_rating = 1, rc_death_rating = 1,
          rc_damage_rating = 1, rc_kas_rating = 1\<rparr>],
      season_skill_history = [], issued = [],
      map_tie_order = (\<lambda>name. 0), mvp_tie_order = (\<lambda>player. 0)\<rparr>"

text \<open>A choice of the two attributes that \<^verbatim>\<open>Player\<close> derives, for the concrete inputs.\<close>

definition example_mmr :: "player \<Rightarrow> real" where
  "example_mmr p = 100 * (pl_skill_mean p - 2 * pl_skill_stdev p)"

definition example_skill_group :: "player \<Rightarrow> string" where
  "example_skill_group p = (if example_mmr p < 1000 then ''Silver'' else ''Gold'')"

text \<open>Two rounds on day 0, rated, neither with a most valuable player.\<close>

definition no_mvp_db :: skill_db where
  "no_mvp_db =
     \<lparr>players = [\<lparr>p_player_id = 1, p_steam_name = ''ann''\<rparr>,
                 \<lparr>p_player_id = 2, p_steam_name = ''bob''\<rparr>],
      rounds = [\<lparr>r_round_id = 1, r_created_at = 100, r_map_id = 1, r_mvp = None\<rparr>,
                \<lparr>r_round_id = 2, r_created_at = 200, r_map_id = 1, r_mvp = None\<rparr>],
      maps = [\<lparr>m_map_id = 1, m_map_name = ''de_dust2''\<rparr>],
      rating_components =
        [\<lparr>rc_player_id = 1, rc_round_id = 1, rc_kill_rating = 1, rc_death_rating = 2,
          rc_damage_rating = 3, rc_kas_rating = 4\<rparr>,
         \<lparr>rc_player_id = 2, rc_round_id = 1, rc_kill_rating = 3, rc_death_rating = 1,
          rc_damage_rating = 5, rc_kas_rating = 4\<rparr>,
         \<lparr>rc_player_id = 1, rc_round_id = 2, rc_kill_rating = 2, rc_death_rating = 0,
          rc_damage_rating = 4, rc_kas_rating = 2\<rparr>],
      season_skill_history =
        [\<lparr>ssh_player_id = 1, ssh_round_id = 0, ssh_skill_mean = 11, ssh_skill_stdev = 1\<rparr>,
         \<lparr>ssh_player_id = 1, ssh_round_id = 2, ssh_skill_mean = 13, ssh_skill_stdev = 1\<rparr>],
      issued = [],
      map_tie_order = (\<lambda>name. 0), mvp_tie_order = (\<lambda>player. 0)\<rparr>"

text \<open>Six rounds, five of them on day 0; bob is most valuable in three of those, ann in one.\<close>

definition mvp_db :: skill_db where
  "mvp_db =
     \<lparr>players = [\<lparr>p_player_id = 1, p_steam_name = ''ann''\<rparr>,
                 \<lparr>p_player_id = 2, p_steam_name = ''bob''\<rparr>,
                 \<lparr>p_player_id = 3, p_steam_name = ''cat''\<rparr>],
      rounds = [\<lparr>r_round_id = 1, r_created_at = 100, r_map_id = 1, r_mvp = Some 1\<rparr>,
                \<lparr>r_round_id = 2, r_created_at = 200, r_map_id = 1, r_mvp = Some 2\<rparr>,
                \<lparr>r_round_id = 3, r_created_at = 300, r_map_id = 2, r_mvp = Some 2\<rparr>,
                \<lparr>r_round_id = 4, r_created_at = 400, r_map_id = 2, r_mvp = None\<rparr>,
                \<lparr>r_round_id = 5, r_created_at = 500, r_map_id = 1, r_mvp = Some 2\<rparr>,
                \<lparr>r_round_id = 6, r_created_at = 90000000000, r_map_id = 1, r_mvp = Some 1\<rparr>],
      maps = [\<lparr>m_map_id = 1, m_map_name = ''de_dust2''\<rparr>,
              \<lparr>m_map_id = 2, m_map_name = ''de_mirage''\<rparr>],
      rating_components = [], season_skill_history = [], issued = [],
      map_tie_order = (\<lambda>name. 0), mvp_tie_order = (\<lambda>player. 0)\<rparr>"

text \<open>
  Skill histories around the window of rounds 10 to 20: ann has snapshots at 5, 15 and 25,
  bob only inside the window, cat only before it, dan exactly at its two ends.
\<close>

definition bracket_db :: skill_db where
  "bracket_db =
     \<lparr>players = [\<lparr>p_player_id = 1, p_steam_name = ''ann''\<rparr>,
                 \<lparr>p_player_id = 2, p_steam_name = ''bob''\<rparr>,
                 \<lparr>p_player_id = 3, p_steam_name = ''cat''\<rparr>,
                 \<lparr>p_player_id = 4, p_steam_name = ''dan''\<rparr>],
      rounds = [], maps = [], rating_components = [],
      season_skill_history =
        [\<lparr>ssh_player_id = 1, ssh_round_id = 5, ssh_skill_mean = 10, ssh_skill_stdev = 1\<rparr>,
         \<lparr>ssh_player_id = 1, ssh_round_id = 15, ssh_skill_mean = 12, ssh_skill_stdev = 1\<rparr>,
         \<lparr>ssh_player_id = 1, ssh_round_id = 25, ssh_skill_mean = 14, ssh_skill_stdev = 1\<rparr>,
         \<lparr>ssh_player_id = 2, ssh_round_id = 15, ssh_skill_mean = 30, ssh_skill_stdev = 2\<rparr>,
         \<lparr>ssh_player_id = 3, ssh_round_id = 3, ssh_skill_mean = 9, ssh_skill_stdev = 1\<rparr>,
         \<lparr>ssh_player_id = 3, ssh_round_id = 8, ssh_skill_mean = 20, ssh_skill_stdev = 1\<rparr>,
         \<lparr>ssh_player_id = 4, ssh_round_id = 10, ssh_skill_mean = 16, ssh_skill_stdev = 2\<rparr>,
         \<lparr>ssh_player_id = 4, ssh_round_id = 20, ssh_skill_mean = 17, ssh_skill_stdev = 2\<rparr>],
      issued = [],
      map_tie_order = (\<lambda>name. 0), mvp_tie_order = (\<lambda>player. 0)\<rparr>"

text \<open>
  Four players bracketed around the window 10 to 20: cat's skill mean changes within one
  skill group of \<open>example_skill_group\<close>, the other three change group.
\<close>

definition tiers_db :: skill_db where
  "tiers_db =
     \<lparr>players = [\<lparr>p_player_id = 1, p_steam_name = ''ann''\<rparr>,
                 \<lparr>p_player_id = 2, p_steam_name = ''bob''\<rparr>,
                 \<lparr>p_player_id = 3, p_steam_name = ''cat''\<rparr>,
                 \<lparr>p_player_id = 4, p_steam_name = ''dan''\<rparr>],
      rounds = [], maps = [], rating_components = [],
      season_skill_history =
        [\<lparr>ssh_player_id = 1, ssh_round_id = 5, ssh_skill_mean = 11, ssh_skill_stdev = 1\<rparr>,
         \<lparr>ssh_player_id = 1, ssh_round_id = 25, ssh_skill_mean = 13, ssh_skill_stdev = 1\<rparr>,
         \<lparr>ssh_player_id = 2, ssh_round_id = 5, ssh_skill_mean = 14, ssh_skill_stdev = 1\<rparr>,
         \<lparr>ssh_player_id = 2, ssh_round_id = 25, ssh_skill_mean = 11, ssh_skill_stdev = 1\<rparr>,
         \<lparr>ssh_player_id = 3, ssh_round_id = 5, ssh_skill_mean = 8, ssh_skill_stdev = 1\<rparr>,
         \<lparr>ssh_player_id = 3, ssh_round_id = 25, ssh_skill_mean = 9, ssh_skill_stdev = 1\<rparr>,
         \<lparr>ssh_player_id = 4, ssh_round_id = 5, ssh_skill_mean = 10, ssh_skill_stdev = 1\<rparr>,
         \<lparr>ssh_player_id = 4, ssh_round_id = 25, ssh_skill_mean = 17, ssh_skill_stdev = 1\<rparr>],
      issued = [],
      map_tie_order = (\<lambda>name. 0), mvp_tie_order = (\<lambda>player. 0)\<rparr>"







text \<open>Rounds 1 and 2 have the \<open>mvp\<close> 9, which has no row in \<open>players\<close>; round 3 has ann.\<close>

definition orphan_mvp_db :: skill_db where
  "orphan_mvp_db =
     \<lparr>players = [\<lparr>p_player_id = 1, p_steam_name = ''ann''\<rparr>],
      rounds = [\<lparr>r_round_id = 1, r_created_at = 100, r_map_id = 1, r_mvp = Some 9\<rparr>,
                \<lparr>r_round_id = 2, r_created_at = 200, r_map_id = 1, r_mvp = Some 9\<rparr>,
                \<lparr>r_round_id = 3, r_created_at = 300, r_map_id = 1, r_mvp = Some 1\<rparr>],
      maps = [\<lparr>m_map_id = 1, m_map_name = ''de_dust2''\<rparr>],
      rating_components = [], season_skill_history = [], issued = [],
      map_tie_order = (\<lambda>name. 0), mvp_tie_order = (\<lambda>player. 0)\<rparr>"

text \<open>The row of ann twice in \<open>players\<close>, and one round with ann as \<open>mvp\<close>.\<close>

definition double_player_db :: skill_db where
  "double_player_db =
     \<lparr>players = [\<lparr>p_player_id = 1, p_steam_name = ''ann''\<rparr>,
                 \<lparr>p_player_id = 1, p_steam_name = ''ann''\<rparr>],
      rounds = [\<lparr>r_round_id = 1, r_created_at = 100, r_map_id = 1, r_mvp = Some 1\<rparr>],
      maps = [\<lparr>m_map_id = 1, m_map_name = ''de_dust2''\<rparr>],
      rating_components = [], season_skill_history = [], issued = [],
      map_tie_order = (\<lambda>name. 0), mvp_tie_order = (\<lambda>player. 0)\<rparr>"

section \<open>What the statements return\<close>

lemma get_round_range_for_day_eq:
  "get_round_range_for_day db day =
     (let ids = map r_round_id (rounds_created_between db day (day + one_day))
      in (Inr ((sql_min ids, sql_max ids), int (length ids)),
          db\<lparr>issued := issued db @ [RoundRangeQuery]\<rparr>))"
  by (simp add: get_round_range_for_day_def execute_one_def execute_def round_range_rows_def Let_def)

text \<open>A read changes nothing but the record of issued statements.\<close>

lemma rating_extreme_rows_issued [simp]:
  "rating_extreme_rows cs (db\<lparr>issued := l\<rparr>) rr = rating_extreme_rows cs db rr"
  by (simp add: rating_extreme_rows_def impact_ratings_def components_def components_of_def
      components_in_range_def)

lemma mvp_rows_issued [simp]: "mvp_rows (db\<lparr>issued := l\<rparr>) rr = mvp_rows db rr"
  by (simp add: mvp_rows_def mvp_groups_def mvp_join_def)

lemma skill_change_rows_issued [simp]:
  "skill_change_rows (db\<lparr>issued := l\<rparr>) rr = skill_change_rows db rr"
  by (simp add: skill_change_rows_def earlier_rows_def later_rows_def latest_before_def
      earliest_after_def)

lemma most_played_maps_rows_issued [simp]:
  "most_played_maps_rows (db\<lparr>issued := l\<rparr>) rr = most_played_maps_rows db rr"
  by (simp add: most_played_maps_rows_def map_groups_def map_join_def)

lemma snd_get_rating_extremes [simp]:
  "snd (get_rating_extremes_between_rounds cs db rr) = db\<lparr>issued := issued db @ [RatingExtremesQuery]\<rparr>"
  by (simp add: get_rating_extremes_between_rounds_def execute_def Let_def split: list.split)

lemma fst_get_rating_extremes_issued [simp]:
  "fst (get_rating_extremes_between_rounds cs (db\<lparr>issued := l\<rparr>) rr) =
     fst (get_rating_extremes_between_rounds cs db rr)"
  by (simp add: get_rating_extremes_between_rounds_def execute_def Let_def split: list.split)

lemma snd_get_player_with_most_mvps [simp]:
  "snd (get_player_with_most_mvps_between_rounds db rr) = db\<lparr>issued := issued db @ [MostMvpsQuery]\<rparr>"
  by (simp add: get_player_with_most_mvps_between_rounds_def execute_one_def execute_def
      split: list.split prod.split)

lemma fst_get_player_with_most_mvps_issued [simp]:
  "fst (get_player_with_most_mvps_between_rounds (db\<lparr>issued := l\<rparr>) rr) =
     fst (get_player_with_most_mvps_between_rounds db rr)"
  by (simp add: get_player_with_most_mvps_between_rounds_def execute_one_def execute_def
      split: list.split prod.split)

lemma fst_get_player_with_most_mvps_cases:
  "fst (get_player_with_most_mvps_between_rounds db rr) =
     (case mvp_rows db rr of
        [] \<Rightarrow> Inl StopIteration
      | (pid, name, mvps) # _ \<Rightarrow> Inr \<lparr>mv_player_id = pid, mv_steam_name = name, mv_mvps = mvps\<rparr>)"
  by (simp add: get_player_with_most_mvps_between_rounds_def execute_one_def execute_def
      split: list.split prod.split)

lemma snd_get_skill_changes [simp]:
  "snd (get_skill_changes_between_rounds mmr sg db rr) = db\<lparr>issued := issued db @ [SkillChangesQuery]\<rparr>"
  by (simp add: get_skill_changes_between_rounds_def execute_def Let_def)

lemma fst_get_skill_changes_issued [simp]:
  "fst (get_skill_changes_between_rounds mmr sg (db\<lparr>issued := l\<rparr>) rr) =
     fst (get_skill_changes_between_rounds mmr sg db rr)"
  by (simp add: get_skill_changes_between_rounds_def execute_def Let_def)

lemma snd_get_most_played_maps [simp]:
  "snd (get_most_played_maps_between_rounds db rr) = db\<lparr>issued := issued db @ [MostPlayedMapsQuery]\<rparr>"
  by (simp add: get_most_played_maps_between_rounds_def execute_def)

lemma fst_get_most_played_maps_issued [simp]:
  "fst (get_most_played_maps_between_rounds (db\<lparr>issued := l\<rparr>) rr) =
     fst (get_most_played_maps_between_rounds db rr)"
  by (simp add: get_most_played_maps_between_rounds_def execute_def)

section \<open>The digest of a day without rounds\<close>

text \<open>
  Claim C1. When no round was created in the window of the day, \<open>get_highlights\<close> raises
  \<^verbatim>\<open>StopIteration\<close>, which is not a digest, and the only statement executed on the handle
  is the one of \<open>get_round_range_for_day\<close>: the statements for the rating extremes, the
  most valuable player, the skill changes and the most played maps are not issued.
\<close>

theorem get_highlights_no_activity:
  assumes "rounds_created_between db day (day + one_day) = []"
  shows "get_highlights cs mmr skill_group db day =
           (Inl StopIteration, db\<lparr>issued := issued db @ [RoundRangeQuery]\<rparr>)"
  using assms by (simp add: get_highlights_def get_round_range_for_day_eq)

theorem get_highlights_no_activity_witness:
  "rounds_created_between midnight_db 86400000001 (86400000001 + one_day) = [] \<and>
   get_highlights (1, 1, 1, 1, 0) pl_skill_mean pl_steam_name midnight_db 86400000001 =
     (Inl StopIteration, midnight_db\<lparr>issued := issued midnight_db @ [RoundRangeQuery]\<rparr>)"
proof -
  have h: "rounds_created_between midnight_db 86400000001 (86400000001 + one_day) = []"
    by (simp add: rounds_created_between_def midnight_db_def one_day_def)
  show ?thesis
    using h get_highlights_no_activity [OF h, of "(1, 1, 1, 1, 0)" pl_skill_mean pl_steam_name]
    by simp
qed

section \<open>The window of a day\<close>

text \<open>
  Claim C2. The statement selects with \<^verbatim>\<open>created_at BETWEEN day AND next_day\<close>, which
  includes both ends. The round of \<open>midnight_db\<close> is created exactly at the end of day 0,
  which is the start of the next day, and it is in the window of both days.
\<close>

theorem round_at_midnight_in_two_windows:
  "fst (get_round_range_for_day midnight_db 0) = Inr ((Some 7, Some 7), 1) \<and>
   fst (get_round_range_for_day midnight_db 86400000000) = Inr ((Some 7, Some 7), 1)"
  by (simp add: get_round_range_for_day_eq rounds_created_between_def midnight_db_def one_day_def)

section \<open>The digest of a day with rounds\<close>

lemma fst_get_highlights:
  assumes "fst (get_round_range_for_day db day) = Inr (rr, n)"
  shows "fst (get_highlights cs mmr sg db day) =
     (if n = 0 then Inl StopIteration
      else case fst (get_rating_extremes_between_rounds cs db rr) of
             Inl e \<Rightarrow> Inl e
           | Inr (lowest, highest) \<Rightarrow>
               (case except_StopIteration (fst (get_player_with_most_mvps_between_rounds db rr)) of
                  Inl e \<Rightarrow> Inl e
                | Inr mvps \<Rightarrow>
                    Inr \<lparr>time_window = [day, day + one_day],
                         rounds_played = n,
                         lowest_rating = lowest,
                         highest_rating = highest,
                         season_skill_group_changes =
                           map (skill_change_entry_of mmr sg)
                               (fst (get_skill_changes_between_rounds mmr sg db rr)),
                         most_played_maps = fst (get_most_played_maps_between_rounds db rr),
                         most_mvps = mvps\<rparr>))"
proof -
  have rr: "get_round_range_for_day db day = (Inr (rr, n), db\<lparr>issued := issued db @ [RoundRangeQuery]\<rparr>)"
    using assms by (simp add: get_round_range_for_day_eq Let_def)
  show ?thesis
    by (simp add: get_highlights_def rr case_prod_beta split: sum.split)
qed


lemma rating_extreme_rows_empty:
  assumes "components_in_range db rr = []"
  shows "rating_extreme_rows cs db rr = []"
  using assms by (simp add: rating_extreme_rows_def impact_ratings_def components_def)

lemma fst_get_rating_extremes_empty:
  assumes "components_in_range db rr = []"
  shows "fst (get_rating_extremes_between_rounds cs db rr) = Inl IndexError"
  using rating_extreme_rows_empty [OF assms]
  by (simp add: get_rating_extremes_between_rounds_def execute_def)

text \<open>
  Claim C10. When the day has rounds but no rating component lies in their range, the
  statement of \<open>get_rating_extremes_between_rounds\<close> selects nothing, the index \<open>0\<close> of
  the empty list raises \<^verbatim>\<open>IndexError\<close>, and \<open>get_highlights\<close>, which does not catch it,
  fails with it: neither a digest nor the no-activity signal \<^verbatim>\<open>StopIteration\<close>.
\<close>

theorem get_highlights_without_ratings:
  assumes "fst (get_round_range_for_day db day) = Inr (rr, n)"
    and "n \<noteq> 0"
    and "components_in_range db rr = []"
  shows "fst (get_rating_extremes_between_rounds cs db rr) = Inl IndexError
         \<and> fst (get_highlights cs mmr skill_group db day) = Inl IndexError"
  using assms(2) fst_get_rating_extremes_empty [OF assms(3)]
  by (simp add: fst_get_highlights [OF assms(1)])

theorem get_highlights_without_ratings_witness:
  "fst (get_round_range_for_day unrated_db 0) = Inr ((Some 4, Some 5), 2)
   \<and> (2::int) \<noteq> 0
   \<and> components_in_range unrated_db (Some 4, Some 5) = []
   \<and> fst (get_rating_extremes_between_rounds (1, 1, 1, 1, 0) unrated_db (Some 4, Some 5)) = Inl IndexError
   \<and> fst (get_highlights (1, 1, 1, 1, 0) pl_skill_mean pl_steam_name unrated_db 0) = Inl IndexError"
proof -
  have a: "fst (get_round_range_for_day unrated_db 0) = Inr ((Some 4, Some 5), 2)"
    by (simp add: get_round_range_for_day_eq rounds_created_between_def unrated_db_def one_day_def)
  have b: "(2::int) \<noteq> 0" by simp
  have c: "components_in_range unrated_db (Some 4, Some 5) = []"
    by (simp add: components_in_range_def in_range_def unrated_db_def)
  show ?thesis
    using a b c get_highlights_without_ratings [OF a b c, of "(1, 1, 1, 1, 0)" pl_skill_mean pl_steam_name]
    by blast
qed

lemma mvp_rows_empty:
  assumes "\<forall>r\<in>set (rounds db). in_range rr (r_round_id r) \<longrightarrow> r_mvp r = None"
  shows "mvp_rows db rr = []"
proof -
  have none: "filter (\<lambda>r. Some (p_player_id p) = r_mvp r \<and> in_range rr (r_round_id r)) (rounds db) = []" for p
    using assms by (auto simp: filter_empty_conv)
  have "mvp_join db rr = []"
    by (simp add: mvp_join_def none)
  then show ?thesis
    by (simp add: mvp_rows_def mvp_groups_def)
qed

text \<open>
  Claim C8. When no round of the window has a most valuable player, the
  \<^verbatim>\<open>StopIteration\<close> of \<open>get_player_with_most_mvps_between_rounds\<close> is caught:
  \<open>get_highlights\<close> fails only for a day without rounds or with the error of the rating
  extremes, and otherwise returns the digest with every other field as the other
  functions give it and \<open>most_mvps\<close> absent.
\<close>

theorem get_highlights_without_mvp:
  assumes "fst (get_round_range_for_day db day) = Inr (rr, n)"
    and "\<forall>r\<in>set (rounds db). in_range rr (r_round_id r) \<longrightarrow> r_mvp r = None"
  shows "fst (get_highlights cs mmr skill_group db day) =
     (if n = 0 then Inl StopIteration
      else case fst (get_rating_extremes_between_rounds cs db rr) of
             Inl e \<Rightarrow> Inl e
           | Inr (lowest, highest) \<Rightarrow>
               Inr \<lparr>time_window = [day, day + one_day],
                    rounds_played = n,
                    lowest_rating = lowest,
                    highest_rating = highest,
                    season_skill_group_changes =
                      map (skill_change_entry_of mmr skill_group)
                          (fst (get_skill_changes_between_rounds mmr skill_group db rr)),
                    most_played_maps = fst (get_most_played_maps_between_rounds db rr),
                    most_mvps = None\<rparr>)"
  using mvp_rows_empty [OF assms(2)]
  by (simp add: fst_get_highlights [OF assms(1)] fst_get_player_with_most_mvps_cases
      split: sum.split)


theorem get_highlights_without_mvp_witness:
  "fst (get_round_range_for_day no_mvp_db 0) = Inr ((Some 1, Some 2), 2)
   \<and> map r_mvp (filter (\<lambda>r. in_range (Some 1, Some 2) (r_round_id r)) (rounds no_mvp_db)) = [None, None]
   \<and> fst (get_highlights (1, -1, 1, 1, 0) example_mmr example_skill_group no_mvp_db 0) =
       Inr \<lparr>time_window = [0, 86400000000],
            rounds_played = 2,
            lowest_rating =
              \<lparr>re_player_id = 1, re_steam_name = ''ann'', re_impact_rating = 7,
               re_average_kills = 3 / 2, re_average_deaths = - 1, re_average_damage = 7 / 2,
               re_average_kas = 3, re_rounds_played = 2\<rparr>,
            highest_rating =
              \<lparr>re_player_id = 2, re_steam_name = ''bob'', re_impact_rating = 11,
               re_average_kills = 3, re_average_deaths = - 1, re_average_damage = 5,
               re_average_kas = 4, re_rounds_played = 1\<rparr>,
            season_skill_group_changes =
              [\<lparr>sc_player_id = 1, sc_steam_name = ''ann'',
                sc_previous_skill = \<lparr>sk_mmr = 900, sk_skill_group = ''Silver''\<rparr>,
                sc_next_skill = \<lparr>sk_mmr = 1100, sk_skill_group = ''Gold''\<rparr>\<rparr>],
            most_played_maps = [(''de_dust2'', 2)],
            most_mvps = None\<rparr>"
proof -
  have a: "fst (get_round_range_for_day no_mvp_db 0) = Inr ((Some 1, Some 2), 2)"
    by (simp add: get_round_range_for_day_eq rounds_created_between_def no_mvp_db_def one_day_def)
  have b: "\<forall>r\<in>set (rounds no_mvp_db). in_range (Some 1, Some 2) (r_round_id r) \<longrightarrow> r_mvp r = None"
    by (simp add: no_mvp_db_def)
  have extremes:
    "fst (get_rating_extremes_between_rounds (1, -1, 1, 1, 0) no_mvp_db (Some 1, Some 2)) =
       Inr (\<lparr>re_player_id = 1, re_steam_name = ''ann'', re_impact_rating = 7,
             re_average_kills = 3 / 2, re_average_deaths = - 1, re_average_damage = 7 / 2,
             re_average_kas = 3, re_rounds_played = 2\<rparr>,
            \<lparr>re_player_id = 2, re_steam_name = ''bob'', re_impact_rating = 11,
             re_average_kills = 3, re_average_deaths = - 1, re_average_damage = 5,
             re_average_kas = 4, re_rounds_played = 1\<rparr>)"
    by (simp add: get_rating_extremes_between_rounds_def execute_def rating_extreme_rows_def
        impact_ratings_def components_def components_of_def components_in_range_def in_range_def
        sql_avg_def no_mvp_db_def)
  have changes:
    "fst (get_skill_changes_between_rounds example_mmr example_skill_group no_mvp_db (Some 1, Some 2))
       = [(Player 1 ''ann'' 11 1 0, Player 1 ''ann'' 13 1 0)]"
    by (simp add: get_skill_changes_between_rounds_def execute_def skill_change_rows_def
        earlier_rows_def later_rows_def latest_before_def earliest_after_def
        example_mmr_def example_skill_group_def Player_def no_mvp_db_def)
  have played:
    "fst (get_most_played_maps_between_rounds no_mvp_db (Some 1, Some 2)) = [(''de_dust2'', 2)]"
    by (simp add: get_most_played_maps_between_rounds_def execute_def most_played_maps_rows_def
        map_groups_def map_join_def in_range_def dict_def no_mvp_db_def)
  have entry:
    "skill_change_entry_of example_mmr example_skill_group
       (Player 1 ''ann'' 11 1 0, Player 1 ''ann'' 13 1 0) =
     \<lparr>sc_player_id = 1, sc_steam_name = ''ann'',
      sc_previous_skill = \<lparr>sk_mmr = 900, sk_skill_group = ''Silver''\<rparr>,
      sc_next_skill = \<lparr>sk_mmr = 1100, sk_skill_group = ''Gold''\<rparr>\<rparr>"
    by (simp add: skill_change_entry_of_def example_mmr_def example_skill_group_def Player_def)
  have "fst (get_highlights (1, -1, 1, 1, 0) example_mmr example_skill_group no_mvp_db 0) =
       Inr \<lparr>time_window = [0, 86400000000],
            rounds_played = 2,
            lowest_rating =
              \<lparr>re_player_id = 1, re_steam_name = ''ann'', re_impact_rating = 7,
               re_average_kills = 3 / 2, re_average_deaths = - 1, re_average_damage = 7 / 2,
               re_average_kas = 3, re_rounds_played = 2\<rparr>,
            highest_rating =
              \<lparr>re_player_id = 2, re_steam_name = ''bob'', re_impact_rating = 11,
               re_average_kills = 3, re_average_deaths = - 1, re_average_damage = 5,
               re_average_kas = 4, re_rounds_played = 1\<rparr>,
            season_skill_group_changes =
              [\<lparr>sc_player_id = 1, sc_steam_name = ''ann'',
                sc_previous_skill = \<lparr>sk_mmr = 900, sk_skill_group = ''Silver''\<rparr>,
                sc_next_skill = \<lparr>sk_mmr = 1100, sk_skill_group = ''Gold''\<rparr>\<rparr>],
            most_played_maps = [(''de_dust2'', 2)],
            most_mvps = None\<rparr>"
    using get_highlights_without_mvp [OF a b, of "(1, -1, 1, 1, 0)" example_mmr example_skill_group]
    by (simp add: extremes changes played entry one_day_def)
  moreover have "map r_mvp (filter (\<lambda>r. in_range (Some 1, Some 2) (r_round_id r)) (rounds no_mvp_db))
      = [None, None]"
    by (simp add: no_mvp_db_def in_range_def)
  ultimately show ?thesis using a by blast
qed

section \<open>The impact rating of a player\<close>

lemma filter_eq_remdups:
  "x \<in> set xs \<Longrightarrow> filter (\<lambda>y. y = x) (remdups xs) = [x]"
  by (induction xs) (auto simp: filter_empty_conv)

lemma components_of_range:
  "components_of db (Some lo, Some hi) pid =
     filter (\<lambda>rc. rc_player_id rc = pid \<and> lo \<le> rc_round_id rc \<and> rc_round_id rc \<le> hi)
            (rating_components db)"
  by (auto simp: components_of_def components_in_range_def in_range_def intro: filter_cong)

lemma filter_components:
  assumes "components_of db rr pid \<noteq> []"
  shows "filter (\<lambda>c. c_player_id c = pid) (components db rr) =
     [\<lparr>c_player_id = pid,
       c_average_kills = sql_avg (map rc_kill_rating (components_of db rr pid)),
       c_average_deaths = sql_avg (map rc_death_rating (components_of db rr pid)),
       c_average_damage = sql_avg (map rc_damage_rating (components_of db rr pid)),
       c_average_kas = sql_avg (map rc_kas_rating (components_of db rr pid)),
       c_rounds_played = int (length (components_of db rr pid))\<rparr>]"
proof -
  from assms obtain rc where "rc \<in> set (components_in_range db rr)" "rc_player_id rc = pid"
    by (auto simp: components_of_def filter_empty_conv)
  then have "pid \<in> set (map rc_player_id (components_in_range db rr))"
    by auto
  from filter_eq_remdups [OF this] show ?thesis
    by (simp add: components_def filter_map o_def Let_def)
qed

text \<open>
  Claim C3. For a player with at least one rating component in the range \<open>lo .. hi\<close>
  (both ends included), \<open>impact_ratings\<close> has exactly one row: it carries the arithmetic
  mean of each of the four ratings over the player's rows \<open>g\<close> in the range and the number
  of those rows, and its rating is
  \<open>c1 * average_kills + c2 * average_deaths + c3 * average_damage + c4 * average_kas + c5\<close>.
\<close>

theorem impact_rating_of_player:
  assumes g: "g = filter (\<lambda>rc. rc_player_id rc = pid \<and> lo \<le> rc_round_id rc \<and> rc_round_id rc \<le> hi)
                         (rating_components db)"
    and rows: "g \<noteq> []"
  shows "\<exists>c. filter (\<lambda>ir. c_player_id (snd ir) = pid)
                   (impact_ratings (c1, c2, c3, c4, c5) db (Some lo, Some hi)) =
               [(c1 * c_average_kills c + c2 * c_average_deaths c + c3 * c_average_damage c
                   + c4 * c_average_kas c + c5, c)]
             \<and> c_player_id c = pid
             \<and> c_average_kills c = sum_list (map rc_kill_rating g) / real (length g)
             \<and> c_average_deaths c = sum_list (map rc_death_rating g) / real (length g)
             \<and> c_average_damage c = sum_list (map rc_damage_rating g) / real (length g)
             \<and> c_average_kas c = sum_list (map rc_kas_rating g) / real (length g)
             \<and> c_rounds_played c = int (length g)"
proof -
  have of: "components_of db (Some lo, Some hi) pid = g"
    by (simp add: g components_of_range)
  with rows have "components_of db (Some lo, Some hi) pid \<noteq> []"
    by simp
  from filter_components [OF this] show ?thesis
    by (simp add: impact_ratings_def filter_map o_def of sql_avg_def)
qed


theorem impact_rating_of_player_witness:
  "filter (\<lambda>ir. c_player_id (snd ir) = 1) (impact_ratings (1, - 1, 1, 1, 0) no_mvp_db (Some 1, Some 2)) =
     [(7, \<lparr>c_player_id = 1, c_average_kills = 3 / 2, c_average_deaths = 1,
           c_average_damage = 7 / 2, c_average_kas = 3, c_rounds_played = 2\<rparr>)]"
proof -
  define g where
    "g = filter (\<lambda>rc. rc_player_id rc = 1 \<and> 1 \<le> rc_round_id rc \<and> rc_round_id rc \<le> 2)
                (rating_components no_mvp_db)"
  have rows: "g =
     [\<lparr>rc_player_id = 1, rc_round_id = 1, rc_kill_rating = 1, rc_death_rating = 2,
       rc_damage_rating = 3, rc_kas_rating = 4\<rparr>,
      \<lparr>rc_player_id = 1, rc_round_id = 2, rc_kill_rating = 2, rc_death_rating = 0,
       rc_damage_rating = 4, rc_kas_rating = 2\<rparr>]"
    by (simp add: g_def no_mvp_db_def)
  then have "g \<noteq> []"
    by simp
  from impact_rating_of_player [OF g_def this, of 1 "- 1" 1 1 0]
  obtain c where
    sel: "filter (\<lambda>ir. c_player_id (snd ir) = 1)
            (impact_ratings (1, - 1, 1, 1, 0) no_mvp_db (Some 1, Some 2)) =
          [(1 * c_average_kills c + - 1 * c_average_deaths c + 1 * c_average_damage c
              + 1 * c_average_kas c + 0, c)]"
    and c: "c_player_id c = 1" "c_average_kills c = 3 / 2" "c_average_deaths c = 1"
      "c_average_damage c = 7 / 2" "c_average_kas c = 3" "c_rounds_played c = 2"
    by (auto simp: rows)
  from c have "c = \<lparr>c_player_id = 1, c_average_kills = 3 / 2, c_average_deaths = 1,
           c_average_damage = 7 / 2, c_average_kas = 3, c_rounds_played = 2\<rparr>"
    by (cases c) simp
  with sel show ?thesis
    by simp
qed

section \<open>The lowest and the highest impact rating\<close>

lemma sql_min_Min: "xs \<noteq> [] \<Longrightarrow> sql_min xs = Some (Min (set xs))"
  by (cases xs) (simp_all add: Min.set_eq_fold [symmetric])

lemma sql_max_Max: "xs \<noteq> [] \<Longrightarrow> sql_max xs = Some (Max (set xs))"
  by (cases xs) (simp_all add: Max.set_eq_fold [symmetric])

lemma sorted_hd_Min:
  assumes "sorted (map f xs)" and "xs \<noteq> []"
  shows "f (hd xs) = Min (f ` set xs)"
proof (cases xs)
  case Nil
  with assms show ?thesis by simp
next
  case (Cons x ys)
  with assms have "\<forall>y\<in>set ys. f x \<le> f y"
    by simp
  then have "Min (f ` set (x # ys)) = f x"
    by (intro Min_eqI) auto
  with Cons show ?thesis by simp
qed















section \<open>The player with the most MVP awards\<close>

lemma filter_join_of_key:
  assumes "distinct (map key ps)" and "p \<in> set ps"
  shows "filter (\<lambda>pr. key (fst pr) = key p) (concat (map (\<lambda>q. map (Pair q) (g q)) ps)) =
           map (Pair p) (g p)"
  using assms
proof (induction ps)
  case Nil
  then show ?case by simp
next
  case (Cons q ps)
  show ?case
  proof (cases "q = p")
    case True
    with Cons.prems have "key p \<notin> key ` set ps"
      by simp
    then have "\<forall>q'\<in>set ps. key q' \<noteq> key p"
      by (metis imageI)
    then have "filter (\<lambda>pr. key (fst pr) = key p) (concat (map (\<lambda>q. map (Pair q) (g q)) ps)) = []"
      by (auto simp: filter_empty_conv)
    with True show ?thesis
      by (simp add: filter_map o_def)
  next
    case False
    with Cons.prems have "p \<in> set ps" "key q \<noteq> key p" "distinct (map key ps)"
      by auto
    with Cons.IH show ?thesis
      by (simp add: filter_map o_def)
  qed
qed

lemma mvp_join_iff:
  "pr \<in> set (mvp_join db rr) \<longleftrightarrow>
     fst pr \<in> set (players db) \<and> snd pr \<in> set (rounds db)
     \<and> Some (p_player_id (fst pr)) = r_mvp (snd pr) \<and> in_range rr (r_round_id (snd pr))"
  by (cases pr) (auto simp: mvp_join_def)

lemma mvp_group_count:
  assumes key: "distinct (map p_player_id (players db))" and p: "p \<in> set (players db)"
  shows "filter (\<lambda>pr. mvp_key pr = (p_player_id p, p_steam_name p)) (mvp_join db rr) =
           map (Pair p)
             (filter (\<lambda>r. Some (p_player_id p) = r_mvp r \<and> in_range rr (r_round_id r)) (rounds db))"
proof -
  have same: "q = p" if "q \<in> set (players db)" "p_player_id q = p_player_id p" for q
    using that key p by (auto simp: distinct_map dest: inj_onD)
  have "filter (\<lambda>pr. mvp_key pr = (p_player_id p, p_steam_name p)) (mvp_join db rr) =
        filter (\<lambda>pr. p_player_id (fst pr) = p_player_id p) (mvp_join db rr)"
    by (rule filter_cong) (auto simp: mvp_key_def mvp_join_iff dest: same)
  also have "\<dots> = map (Pair p)
             (filter (\<lambda>r. Some (p_player_id p) = r_mvp r \<and> in_range rr (r_round_id r)) (rounds db))"
    unfolding mvp_join_def by (rule filter_join_of_key [OF key p])
  finally show ?thesis .
qed

lemma mvp_groups_iff:
  assumes key: "distinct (map p_player_id (players db))"
  shows "row \<in> set (mvp_groups db rr) \<longleftrightarrow>
     (\<exists>p\<in>set (players db).
        (\<exists>r\<in>set (rounds db). r_mvp r = Some (p_player_id p) \<and> in_range rr (r_round_id r))
        \<and> row = (p_player_id p, p_steam_name p,
                  int (length (filter (\<lambda>r. in_range rr (r_round_id r) \<and> r_mvp r = Some (p_player_id p))
                                      (rounds db)))))"
    (is "?l \<longleftrightarrow> ?r")
proof -
  have count: "int (length (filter (\<lambda>pr. mvp_key pr = (p_player_id p, p_steam_name p)) (mvp_join db rr))) =
      int (length (filter (\<lambda>r. in_range rr (r_round_id r) \<and> r_mvp r = Some (p_player_id p)) (rounds db)))"
    if "p \<in> set (players db)" for p
  proof -
    have "filter (\<lambda>r. Some (p_player_id p) = r_mvp r \<and> in_range rr (r_round_id r)) (rounds db) =
          filter (\<lambda>r. in_range rr (r_round_id r) \<and> r_mvp r = Some (p_player_id p)) (rounds db)"
      by (rule filter_cong) auto
    with mvp_group_count [OF key that, of rr] show ?thesis
      by simp
  qed
  show ?thesis
  proof
    assume ?l
    then obtain pr where pr: "pr \<in> set (mvp_join db rr)"
      and row: "row = (fst (mvp_key pr), snd (mvp_key pr),
                  int (length (filter (\<lambda>pr'. mvp_key pr' = mvp_key pr) (mvp_join db rr))))"
      by (auto simp: mvp_groups_def)
    from pr have p: "fst pr \<in> set (players db)" and r: "snd pr \<in> set (rounds db)"
      "r_mvp (snd pr) = Some (p_player_id (fst pr))" "in_range rr (r_round_id (snd pr))"
      by (simp_all add: mvp_join_iff)
    have "row = (p_player_id (fst pr), p_steam_name (fst pr),
                  int (length (filter (\<lambda>r. in_range rr (r_round_id r) \<and> r_mvp r = Some (p_player_id (fst pr)))
                                      (rounds db))))"
      using count [OF p] row by (simp add: mvp_key_def)
    with p r show ?r
      by blast
  next
    assume ?r
    then obtain p r where p: "p \<in> set (players db)" and r: "r \<in> set (rounds db)"
      "r_mvp r = Some (p_player_id p)" "in_range rr (r_round_id r)"
      and row: "row = (p_player_id p, p_steam_name p,
                  int (length (filter (\<lambda>r. in_range rr (r_round_id r) \<and> r_mvp r = Some (p_player_id p))
                                      (rounds db))))"
      by blast
    have "(p, r) \<in> set (mvp_join db rr)"
      using p r by (simp add: mvp_join_iff)
    then have "mvp_key (p, r) \<in> set (map mvp_key (mvp_join db rr))"
      by force
    then have "(p_player_id p, p_steam_name p,
                int (length (filter (\<lambda>pr. mvp_key pr = (p_player_id p, p_steam_name p)) (mvp_join db rr))))
               \<in> set (mvp_groups db rr)"
      by (force simp: mvp_groups_def mvp_key_def)
    with count [OF p] row show ?l
      by simp
  qed
qed


text \<open>
  Claim C9, as amended. When some round of the range has a most valuable player, and the store
  keeps its keys (\<open>player_id\<close> is a key of \<open>players\<close>, and the \<open>mvp\<close> of a round in the
  range is the \<open>player_id\<close> of a row of \<open>players\<close>),
  \<open>get_player_with_most_mvps_between_rounds\<close> returns one entry: a player of the store,
  whose \<open>mvps\<close> is the number of rounds in the range with that player as \<open>mvp\<close>, and no
  player has more such rounds.
\<close>

theorem most_mvps_is_maximum:
  assumes key: "distinct (map p_player_id (players db))"
    and fk: "\<forall>r\<in>set (rounds db). \<forall>pid. in_range rr (r_round_id r) \<and> r_mvp r = Some pid
               \<longrightarrow> pid \<in> p_player_id ` set (players db)"
    and some: "\<exists>r\<in>set (rounds db). in_range rr (r_round_id r) \<and> r_mvp r \<noteq> None"
  shows "\<exists>m. fst (get_player_with_most_mvps_between_rounds db rr) = Inr m
     \<and> mv_mvps m =
         int (length (filter (\<lambda>r. in_range rr (r_round_id r) \<and> r_mvp r = Some (mv_player_id m))
                             (rounds db)))
     \<and> (\<forall>pid. int (length (filter (\<lambda>r. in_range rr (r_round_id r) \<and> r_mvp r = Some pid)
                                    (rounds db))) \<le> mv_mvps m)
     \<and> (\<exists>p\<in>set (players db). p_player_id p = mv_player_id m \<and> p_steam_name p = mv_steam_name m)"
proof -
  let ?count = "\<lambda>pid. int (length (filter (\<lambda>r. in_range rr (r_round_id r) \<and> r_mvp r = Some pid)
                                         (rounds db)))"
  let ?f = "\<lambda>(pid :: int, name :: string, mvps :: int). - mvps"
  let ?xs = "mvp_rows db rr"
  have group: "(p_player_id p, p_steam_name p, ?count (p_player_id p)) \<in> set ?xs"
    if "p \<in> set (players db)" "r \<in> set (rounds db)" "r_mvp r = Some (p_player_id p)"
      "in_range rr (r_round_id r)" for p r
    using that by (auto simp: mvp_rows_def mvp_groups_iff [OF key])
  have counted: "?count pid \<le> 0 \<or> (\<exists>p\<in>set (players db). p_player_id p = pid
                    \<and> (p_player_id p, p_steam_name p, ?count pid) \<in> set ?xs)" for pid
  proof (cases "filter (\<lambda>r. in_range rr (r_round_id r) \<and> r_mvp r = Some pid) (rounds db)")
    case Nil
    then show ?thesis by simp
  next
    case (Cons r rs)
    then have "r \<in> set (filter (\<lambda>r. in_range rr (r_round_id r) \<and> r_mvp r = Some pid) (rounds db))"
      by simp
    then have r: "r \<in> set (rounds db)" "in_range rr (r_round_id r)" "r_mvp r = Some pid"
      by simp_all
    with fk obtain p where p: "p \<in> set (players db)" "p_player_id p = pid"
      by force
    with group [of p r] r show ?thesis
      by auto
  qed
  from some obtain r pid where "r \<in> set (rounds db)" "in_range rr (r_round_id r)" "r_mvp r = Some pid"
    by auto
  then have "0 < ?count pid"
    by (auto simp: filter_empty_conv)
  with counted [of pid] have ne: "?xs \<noteq> []"
    by auto
  then obtain pid0 name0 mvps0 rest where xs: "?xs = (pid0, name0, mvps0) # rest"
    by (cases ?xs) auto
  have sorted: "sorted (map ?f ?xs)"
    by (simp add: mvp_rows_def)
  have top: "mvps \<le> mvps0" if "(pid, name, mvps) \<in> set ?xs" for pid name mvps
  proof -
    have "?f (hd ?xs) = Min (?f ` set ?xs)"
      by (rule sorted_hd_Min [OF sorted ne])
    moreover have "Min (?f ` set ?xs) \<le> ?f (pid, name, mvps)"
      using that by (intro Min_le) force+
    ultimately show ?thesis
      by (simp add: xs)
  qed
  have "(pid0, name0, mvps0) \<in> set (mvp_groups db rr)"
    using xs by (metis list.set_intros(1) mvp_rows_def set_sort)
  then obtain p where p: "p \<in> set (players db)" "pid0 = p_player_id p" "name0 = p_steam_name p"
    "mvps0 = ?count pid0"
    unfolding mvp_groups_iff [OF key] by auto
  have nonneg: "0 \<le> mvps0"
    using p(4) by simp
  have most: "?count pid \<le> mvps0" for pid
    using counted [of pid] top nonneg by force
  have "fst (get_player_with_most_mvps_between_rounds db rr) =
          Inr \<lparr>mv_player_id = pid0, mv_steam_name = name0, mv_mvps = mvps0\<rparr>"
    by (simp add: fst_get_player_with_most_mvps_cases xs)
  with p most show ?thesis
    by auto
qed


theorem most_mvps_is_maximum_witness:
  "fst (get_player_with_most_mvps_between_rounds mvp_db (Some 1, Some 5)) =
     Inr \<lparr>mv_player_id = 2, mv_steam_name = ''bob'', mv_mvps = 3\<rparr>
   \<and> int (length (filter (\<lambda>r. in_range (Some 1, Some 5) (r_round_id r) \<and> r_mvp r = Some 2)
                          (rounds mvp_db))) = 3
   \<and> int (length (filter (\<lambda>r. in_range (Some 1, Some 5) (r_round_id r) \<and> r_mvp r = Some 1)
                          (rounds mvp_db))) \<le> 3"
proof -
  have key: "distinct (map p_player_id (players mvp_db))"
    by (simp add: mvp_db_def)
  have fk: "\<forall>r\<in>set (rounds mvp_db). \<forall>pid.
              in_range (Some 1, Some 5) (r_round_id r) \<and> r_mvp r = Some pid
              \<longrightarrow> pid \<in> p_player_id ` set (players mvp_db)"
    by (simp add: mvp_db_def)
  have some: "\<exists>r\<in>set (rounds mvp_db). in_range (Some 1, Some 5) (r_round_id r) \<and> r_mvp r \<noteq> None"
    by (simp add: mvp_db_def in_range_def)
  have leader: "fst (get_player_with_most_mvps_between_rounds mvp_db (Some 1, Some 5)) =
     Inr \<lparr>mv_player_id = 2, mv_steam_name = ''bob'', mv_mvps = 3\<rparr>"
    by (simp add: fst_get_player_with_most_mvps_cases mvp_rows_def mvp_groups_def mvp_join_def
        mvp_key_def in_range_def mvp_db_def)
  from most_mvps_is_maximum [OF key fk some] leader
  have "int (length (filter (\<lambda>r. in_range (Some 1, Some 5) (r_round_id r) \<and> r_mvp r = Some 2)
                          (rounds mvp_db))) = 3"
    and "int (length (filter (\<lambda>r. in_range (Some 1, Some 5) (r_round_id r) \<and> r_mvp r = Some 1)
                          (rounds mvp_db))) \<le> 3"
    by auto
  with leader show ?thesis
    by simp
qed

text \<open>
  Claim C9, as stated, fails. In \<open>orphan_mvp_db\<close> the player 9 is the \<open>mvp\<close> of two rounds
  and has no row in \<open>players\<close>: over rounds 1 to 3 the entry returned is ann with one
  round, and over rounds 1 to 2, where an \<open>mvp\<close> is recorded, no entry is returned. In
  \<open>double_player_db\<close> ann is the \<open>mvp\<close> of one round and the entry returned counts two,
  one for each of her rows in \<open>players\<close>.
\<close>

theorem most_mvps_counterexample:
  "fst (get_player_with_most_mvps_between_rounds orphan_mvp_db (Some 1, Some 3)) =
     Inr \<lparr>mv_player_id = 1, mv_steam_name = ''ann'', mv_mvps = 1\<rparr>
   \<and> map r_mvp (rounds orphan_mvp_db) = [Some 9, Some 9, Some 1]
   \<and> fst (get_player_with_most_mvps_between_rounds orphan_mvp_db (Some 1, Some 2)) =
     Inl StopIteration
   \<and> fst (get_player_with_most_mvps_between_rounds double_player_db (Some 1, Some 1)) =
     Inr \<lparr>mv_player_id = 1, mv_steam_name = ''ann'', mv_mvps = 2\<rparr>
   \<and> map r_mvp (rounds double_player_db) = [Some 1]"
  by (simp add: fst_get_player_with_most_mvps_cases mvp_rows_def mvp_groups_def mvp_join_def
      mvp_key_def in_range_def orphan_mvp_db_def double_player_db_def)

section \<open>Skill group changes\<close>

lemma sql_max_eq_iff: "Some x = sql_max xs \<longleftrightarrow> x \<in> set xs \<and> (\<forall>y\<in>set xs. y \<le> x)"
proof (cases "xs = []")
  case True
  then show ?thesis by simp
next
  case False
  then have "Max (set xs) = x \<longleftrightarrow> x \<in> set xs \<and> (\<forall>y\<in>set xs. y \<le> x)"
    by (intro Max_eq_iff) simp_all
  with sql_max_Max [OF False] show ?thesis
    by auto
qed

lemma sql_min_eq_iff: "Some x = sql_min xs \<longleftrightarrow> x \<in> set xs \<and> (\<forall>y\<in>set xs. x \<le> y)"
proof (cases "xs = []")
  case True
  then show ?thesis by simp
next
  case False
  then have "Min (set xs) = x \<longleftrightarrow> x \<in> set xs \<and> (\<forall>y\<in>set xs. x \<le> y)"
    by (intro Min_eq_iff) simp_all
  with sql_min_Min [OF False] show ?thesis
    by auto
qed

lemma earlier_rows_iff:
  "e \<in> set (earlier_rows db (Some first_round, last_round) pid) \<longleftrightarrow>
     e \<in> set (season_skill_history db) \<and> ssh_player_id e = pid \<and> ssh_round_id e \<le> first_round
     \<and> (\<forall>s\<in>set (season_skill_history db).
           ssh_player_id s = pid \<and> ssh_round_id s \<le> first_round \<longrightarrow> ssh_round_id s \<le> ssh_round_id e)"
  by (auto simp: earlier_rows_def latest_before_def sql_max_eq_iff)

lemma later_rows_iff:
  "l \<in> set (later_rows db (first_round, Some last_round) pid) \<longleftrightarrow>
     l \<in> set (season_skill_history db) \<and> ssh_player_id l = pid \<and> last_round \<le> ssh_round_id l
     \<and> (\<forall>s\<in>set (season_skill_history db).
           ssh_player_id s = pid \<and> last_round \<le> ssh_round_id s \<longrightarrow> ssh_round_id l \<le> ssh_round_id s)"
  by (auto simp: later_rows_def earliest_after_def sql_min_eq_iff)

lemma skill_change_rows_iff:
  "row \<in> set (skill_change_rows db rr) \<longleftrightarrow>
     (\<exists>p\<in>set (players db). \<exists>e\<in>set (earlier_rows db rr (p_player_id p)).
        \<exists>l\<in>set (later_rows db rr (p_player_id p)).
          row = (p_player_id p, p_steam_name p, ssh_skill_mean e, ssh_skill_stdev e,
                 ssh_skill_mean l, ssh_skill_stdev l))"
  by (auto simp: skill_change_rows_def)

lemma fst_get_skill_changes:
  "fst (get_skill_changes_between_rounds mmr skill_group db rr) =
     filter (\<lambda>change. skill_group (fst change) \<noteq> skill_group (snd change))
       (sort_key (\<lambda>change. - mmr (snd change)) (map skill_change_of_row (skill_change_rows db rr)))"
  by (simp add: get_skill_changes_between_rounds_def execute_def Let_def case_prod_unfold)

lemma skill_change_player:
  "pl_player_id (fst (skill_change_of_row row)) = fst row"
  "pl_player_id (snd (skill_change_of_row row)) = fst row"
  by (cases row rule: skill_change_of_row.cases; simp add: Player_def)+

text \<open>
  Claim C5. A row of the statement pairs, for a player of \<open>players\<close>, a history row \<open>e\<close> of
  that player with \<open>round_id \<le> first_round\<close> that no other such row of the player exceeds,
  with a history row \<open>l\<close> of that player with \<open>round_id \<ge> last_round\<close> that no other such
  row of the player precedes; the other players' rows play no part. A player without a
  history row at or before \<open>first_round\<close>, or without one at or after \<open>last_round\<close>,
  is in no pair that \<open>get_skill_changes_between_rounds\<close> returns; the function has no
  failing branch.
\<close>

theorem skill_changes_bracket:
  "(row \<in> set (skill_change_rows db (Some first_round, Some last_round)) \<longleftrightarrow>
     (\<exists>p\<in>set (players db). \<exists>e\<in>set (season_skill_history db). \<exists>l\<in>set (season_skill_history db).
        ssh_player_id e = p_player_id p \<and> ssh_round_id e \<le> first_round
        \<and> (\<forall>s\<in>set (season_skill_history db).
              ssh_player_id s = p_player_id p \<and> ssh_round_id s \<le> first_round
              \<longrightarrow> ssh_round_id s \<le> ssh_round_id e)
        \<and> ssh_player_id l = p_player_id p \<and> last_round \<le> ssh_round_id l
        \<and> (\<forall>s\<in>set (season_skill_history db).
              ssh_player_id s = p_player_id p \<and> last_round \<le> ssh_round_id s
              \<longrightarrow> ssh_round_id l \<le> ssh_round_id s)
        \<and> row = (p_player_id p, p_steam_name p, ssh_skill_mean e, ssh_skill_stdev e,
                  ssh_skill_mean l, ssh_skill_stdev l)))
   \<and> ((\<forall>s\<in>set (season_skill_history db). ssh_player_id s = pid \<longrightarrow> first_round < ssh_round_id s)
        \<or> (\<forall>s\<in>set (season_skill_history db). ssh_player_id s = pid \<longrightarrow> ssh_round_id s < last_round)
       \<longrightarrow> (\<forall>change\<in>set (fst (get_skill_changes_between_rounds mmr skill_group db (Some first_round, Some last_round))).
              pl_player_id (fst change) \<noteq> pid \<and> pl_player_id (snd change) \<noteq> pid))"
proof (intro conjI impI)
  show "row \<in> set (skill_change_rows db (Some first_round, Some last_round)) \<longleftrightarrow>
     (\<exists>p\<in>set (players db). \<exists>e\<in>set (season_skill_history db). \<exists>l\<in>set (season_skill_history db).
        ssh_player_id e = p_player_id p \<and> ssh_round_id e \<le> first_round
        \<and> (\<forall>s\<in>set (season_skill_history db).
              ssh_player_id s = p_player_id p \<and> ssh_round_id s \<le> first_round
              \<longrightarrow> ssh_round_id s \<le> ssh_round_id e)
        \<and> ssh_player_id l = p_player_id p \<and> last_round \<le> ssh_round_id l
        \<and> (\<forall>s\<in>set (season_skill_history db).
              ssh_player_id s = p_player_id p \<and> last_round \<le> ssh_round_id s
              \<longrightarrow> ssh_round_id l \<le> ssh_round_id s)
        \<and> row = (p_player_id p, p_steam_name p, ssh_skill_mean e, ssh_skill_stdev e,
                  ssh_skill_mean l, ssh_skill_stdev l))"
    by (simp only: skill_change_rows_iff Bex_def earlier_rows_iff later_rows_iff) blast
next
  assume none: "(\<forall>s\<in>set (season_skill_history db). ssh_player_id s = pid \<longrightarrow> first_round < ssh_round_id s)
        \<or> (\<forall>s\<in>set (season_skill_history db). ssh_player_id s = pid \<longrightarrow> ssh_round_id s < last_round)"
  have other: "fst row \<noteq> pid"
    if "row \<in> set (skill_change_rows db (Some first_round, Some last_round))" for row
    using that none by (simp only: skill_change_rows_iff Bex_def earlier_rows_iff later_rows_iff) fastforce
  have "pl_player_id (fst change) \<noteq> pid \<and> pl_player_id (snd change) \<noteq> pid"
    if "change \<in> set (map skill_change_of_row (skill_change_rows db (Some first_round, Some last_round)))"
    for change
  proof -
    from that obtain row where "row \<in> set (skill_change_rows db (Some first_round, Some last_round))"
      "change = skill_change_of_row row"
      by auto
    with other [of row] show ?thesis
      by (simp add: skill_change_player)
  qed
  then show "\<forall>change\<in>set (fst (get_skill_changes_between_rounds mmr skill_group db (Some first_round, Some last_round))).
              pl_player_id (fst change) \<noteq> pid \<and> pl_player_id (snd change) \<noteq> pid"
    by (simp add: fst_get_skill_changes)
qed


theorem skill_changes_bracket_witness:
  "(1, ''ann'', 10, 1, 14, 1) \<in> set (skill_change_rows bracket_db (Some 10, Some 20))
   \<and> 2 \<notin> (\<lambda>change. pl_player_id (fst change)) `
            set (fst (get_skill_changes_between_rounds example_mmr example_skill_group bracket_db
                        (Some 10, Some 20)))
   \<and> skill_change_rows bracket_db (Some 10, Some 20) =
        [(1, ''ann'', 10, 1, 14, 1), (4, ''dan'', 16, 2, 17, 2)]"
proof -
  note bracket =
    skill_changes_bracket [of _ bracket_db 10 20 2 example_mmr example_skill_group]
  have "\<exists>p\<in>set (players bracket_db).
          \<exists>e\<in>set (season_skill_history bracket_db). \<exists>l\<in>set (season_skill_history bracket_db).
        ssh_player_id e = p_player_id p \<and> ssh_round_id e \<le> 10
        \<and> (\<forall>s\<in>set (season_skill_history bracket_db).
              ssh_player_id s = p_player_id p \<and> ssh_round_id s \<le> 10
              \<longrightarrow> ssh_round_id s \<le> ssh_round_id e)
        \<and> ssh_player_id l = p_player_id p \<and> 20 \<le> ssh_round_id l
        \<and> (\<forall>s\<in>set (season_skill_history bracket_db).
              ssh_player_id s = p_player_id p \<and> 20 \<le> ssh_round_id s
              \<longrightarrow> ssh_round_id l \<le> ssh_round_id s)
        \<and> ((1, ''ann'', 10, 1, 14, 1) :: skill_change_row) =
             (p_player_id p, p_steam_name p, ssh_skill_mean e, ssh_skill_stdev e,
              ssh_skill_mean l, ssh_skill_stdev l)"
    by (simp add: bracket_db_def)
  with bracket [of "(1, ''ann'', 10, 1, 14, 1)", THEN conjunct1]
  have ann: "(1, ''ann'', 10, 1, 14, 1) \<in> set (skill_change_rows bracket_db (Some 10, Some 20))"
    by blast
  have "(\<forall>s\<in>set (season_skill_history bracket_db). ssh_player_id s = 2 \<longrightarrow> 10 < ssh_round_id s)
        \<or> (\<forall>s\<in>set (season_skill_history bracket_db). ssh_player_id s = 2 \<longrightarrow> ssh_round_id s < 20)"
    by (simp add: bracket_db_def)
  from bracket [of "(1, ''ann'', 10, 1, 14, 1)", THEN conjunct2, THEN mp, OF this]
  have bob: "2 \<notin> (\<lambda>change. pl_player_id (fst change)) `
            set (fst (get_skill_changes_between_rounds example_mmr example_skill_group bracket_db
                        (Some 10, Some 20)))"
    by auto
  have "skill_change_rows bracket_db (Some 10, Some 20) =
        [(1, ''ann'', 10, 1, 14, 1), (4, ''dan'', 16, 2, 17, 2)]"
    by (simp add: skill_change_rows_def earlier_rows_def later_rows_def latest_before_def
        earliest_after_def bracket_db_def)
  with ann bob show ?thesis
    by blast
qed


text \<open>
  Claim C6. The pairs that \<open>get_skill_changes_between_rounds\<close> returns are, with their
  multiplicities, the pairs built from the rows of the statement whose two skill groups
  differ (so a pair whose skill mean or deviation changed within one group is left out),
  and they are ordered by the \<open>mmr\<close> of the later snapshot, largest first.
\<close>

theorem skill_changes_filtered_sorted:
  "mset (fst (get_skill_changes_between_rounds mmr skill_group db rr)) =
     filter_mset (\<lambda>change. skill_group (fst change) \<noteq> skill_group (snd change))
       (mset (map skill_change_of_row (skill_change_rows db rr)))
   \<and> sorted_wrt (\<lambda>a b. mmr (snd b) \<le> mmr (snd a))
        (fst (get_skill_changes_between_rounds mmr skill_group db rr))"
proof
  show "mset (fst (get_skill_changes_between_rounds mmr skill_group db rr)) =
     filter_mset (\<lambda>change. skill_group (fst change) \<noteq> skill_group (snd change))
       (mset (map skill_change_of_row (skill_change_rows db rr)))"
    by (simp add: fst_get_skill_changes)
next
  let ?key = "\<lambda>change :: player \<times> player. - mmr (snd change)"
  have "sorted (map ?key (sort_key ?key (map skill_change_of_row (skill_change_rows db rr))))"
    by (rule sorted_sort_key)
  then have "sorted (map ?key (fst (get_skill_changes_between_rounds mmr skill_group db rr)))"
    unfolding fst_get_skill_changes by (rule sorted_filter)
  then show "sorted_wrt (\<lambda>a b. mmr (snd b) \<le> mmr (snd a))
        (fst (get_skill_changes_between_rounds mmr skill_group db rr))"
    by (simp add: sorted_map)
qed

theorem skill_changes_filtered_sorted_witness:
  "fst (get_skill_changes_between_rounds example_mmr example_skill_group tiers_db (Some 10, Some 20)) =
     [(Player 4 ''dan'' 10 1 0, Player 4 ''dan'' 17 1 0),
      (Player 1 ''ann'' 11 1 0, Player 1 ''ann'' 13 1 0),
      (Player 2 ''bob'' 14 1 0, Player 2 ''bob'' 11 1 0)]
   \<and> sorted_wrt (\<lambda>a b. example_mmr (snd b) \<le> example_mmr (snd a))
        [(Player 4 ''dan'' 10 1 0, Player 4 ''dan'' 17 1 0),
         (Player 1 ''ann'' 11 1 0, Player 1 ''ann'' 13 1 0),
         (Player 2 ''bob'' 14 1 0, Player 2 ''bob'' 11 1 0)]
   \<and> (3, ''cat'', 8, 1, 9, 1) \<in> set (skill_change_rows tiers_db (Some 10, Some 20))"
proof -
  have rows: "skill_change_rows tiers_db (Some 10, Some 20) =
      [(1, ''ann'', 11, 1, 13, 1), (2, ''bob'', 14, 1, 11, 1),
       (3, ''cat'', 8, 1, 9, 1), (4, ''dan'', 10, 1, 17, 1)]"
    by (simp add: skill_change_rows_def earlier_rows_def later_rows_def latest_before_def
        earliest_after_def tiers_db_def)
  have changes:
    "fst (get_skill_changes_between_rounds example_mmr example_skill_group tiers_db (Some 10, Some 20)) =
     [(Player 4 ''dan'' 10 1 0, Player 4 ''dan'' 17 1 0),
      (Player 1 ''ann'' 11 1 0, Player 1 ''ann'' 13 1 0),
      (Player 2 ''bob'' 14 1 0, Player 2 ''bob'' 11 1 0)]"
    by (simp add: fst_get_skill_changes rows example_mmr_def example_skill_group_def Player_def)
  from skill_changes_filtered_sorted [of example_mmr example_skill_group tiers_db "(Some 10, Some 20)"]
  have "sorted_wrt (\<lambda>a b. example_mmr (snd b) \<le> example_mmr (snd a))
        (fst (get_skill_changes_between_rounds example_mmr example_skill_group tiers_db
                (Some 10, Some 20)))"
    by (rule conjunct2)
  with changes rows show ?thesis
    by simp
qed

section \<open>The most played maps\<close>







lemma map_groups_keys: "map fst (map_groups db rr) = remdups (map (\<lambda>rm. m_map_name (snd rm)) (map_join db rr))"
  by (simp add: map_groups_def o_def)




lemma place_in_list:
  assumes "distinct keys" and "i < length keys"
  shows "length (takeWhile (\<lambda>x. x \<noteq> keys ! i) keys) = i"
proof -
  let ?r = "length (takeWhile (\<lambda>x. x \<noteq> keys ! i) keys)"
  have "takeWhile (\<lambda>x. x \<noteq> keys ! i) keys \<noteq> keys"
    using assms(2) by (auto simp: takeWhile_eq_all_conv)
  then have less: "?r < length keys"
    by (metis length_takeWhile_le le_neq_implies_less takeWhile_eq_take take_all_iff order_refl)
  from nth_length_takeWhile [OF this] have "keys ! ?r = keys ! i"
    by simp
  with assms less show ?thesis
    by (simp add: nth_eq_iff_index_eq)
qed


lemma map_groups_map_tie_order [simp]:
  "map_groups (db\<lparr>map_tie_order := order\<rparr>) rr = map_groups db rr"
  by (simp add: map_groups_def map_join_def)

text \<open>
  The engine's \<open>map_tie_order\<close> leaves out no answer: every list of rows that the statement
  allows is what \<open>most_played_maps_rows\<close> gives behind some engine.
\<close>

lemma every_answer_has_an_engine:
  assumes "most_played_maps_answer db rr rows"
  shows "\<exists>order. most_played_maps_rows (db\<lparr>map_tie_order := order\<rparr>) rr = rows"
proof -
  let ?keys = "map fst rows"
  let ?order = "\<lambda>name. int (length (takeWhile (\<lambda>x. x \<noteq> name) ?keys))"
  let ?f = "\<lambda>row :: string \<times> int. ?order (fst row)"
  from assms have perm: "mset rows = mset (map_groups db rr)"
    and desc: "sorted (map (\<lambda>row. - snd row) rows)"
    by (simp_all add: most_played_maps_answer_def)
  have "distinct (map fst (map_groups db rr))"
    by (simp add: map_groups_keys)
  moreover from perm have "mset ?keys = mset (map fst (map_groups db rr))"
    by (metis mset_map)
  ultimately have keys: "distinct ?keys"
    by (metis mset_eq_imp_distinct_iff)
  have places: "map ?f rows = map int [0..<length rows]"
  proof (rule nth_equalityI)
    show "length (map ?f rows) = length (map int [0..<length rows])"
      by simp
  next
    fix i assume "i < length (map ?f rows)"
    then have i: "i < length ?keys"
      by simp
    from place_in_list [OF keys i] i show "map ?f rows ! i = map int [0..<length rows] ! i"
      by simp
  qed
  have sorted: "sorted (map ?f rows)"
    unfolding places by (simp add: sorted_map sorted_wrt_iff_nth_less)
  have "distinct (map ?f rows)"
    unfolding places by (simp add: distinct_map inj_on_def)
  then have "inj_on ?f (set rows)"
    by (simp add: distinct_map)
  with perm have inj: "inj_on ?f (set (map_groups db rr))"
    by (metis mset_eq_setD)
  have "sort_key ?f (map_groups db rr) = rows"
    using perm [symmetric] inj sorted by (rule sort_key_inj_key_eq)
  moreover have "sort_key (\<lambda>row. - snd row) rows = rows"
    using desc by (rule sort_key_id_if_sorted)
  ultimately have "most_played_maps_rows (db\<lparr>map_tie_order := ?order\<rparr>) rr = rows"
    by (simp add: most_played_maps_rows_def)
  then show ?thesis
    by blast
qed






end
